theory Spec2Isabelle
  imports Complex_Main "HOL-Library.Word"
begin

section \<open>JavaScript values\<close>

text \<open>
  The Handwritten Data Extractor is a React component (\<^verbatim>\<open>App.tsx\<close>) around one service
  module (\<^verbatim>\<open>services/geminiService.ts\<close>, present in two versions: one with a fixed
  response schema, one with dynamic headers). A JavaScript string is a \<^typ>\<open>string\<close>, one
  \<^typ>\<open>char\<close> per code unit, so the model covers the strings whose code units are below
  256. \<open>undefined\<close> and \<open>null\<close> are \<^const>\<open>None\<close> where a value may be missing.
\<close>

datatype json =
    JNull
  | JBool bool
  | JNumber real
  | JString string
  | JArray "json list"
  | JObject "(string \<times> json) list"

text \<open>
  What a \<open>throw\<close> or a rejected promise carries: an \<open>Error\<close> (or a subclass such as
  \<open>SyntaxError\<close>, \<open>TypeError\<close>) with its message, the \<open>ProgressEvent\<close> a
  \<open>FileReader\<close> hands to \<open>onerror\<close>, or any other value.
\<close>

datatype thrown = Error string | ProgressEvent | OtherValue

text \<open>Truthiness of a \<open>string | undefined | null\<close>: only a non-empty string is truthy.\<close>

fun truthy :: "string option \<Rightarrow> bool" where
  "truthy None = False"
| "truthy (Some s) = (s \<noteq> [])"

subsection \<open>String and array methods used by the source\<close>

fun startsWith :: "string \<Rightarrow> string \<Rightarrow> bool" where
  "startsWith s [] = True"
| "startsWith [] (c # cs) = False"
| "startsWith (x # xs) (c # cs) = (x = c \<and> startsWith xs cs)"

text \<open>\<^verbatim>\<open>s.includes(sub)\<close>: \<open>sub\<close> occurs in \<open>s\<close> at some position.\<close>

fun includes_str :: "string \<Rightarrow> string \<Rightarrow> bool" where
  "includes_str [] sub = (sub = [])"
| "includes_str (x # xs) sub = (startsWith (x # xs) sub \<or> includes_str xs sub)"

text \<open>
  \<^verbatim>\<open>s.trim()\<close> strips white space and line terminators from both ends; below 256
  these are the code units 9 to 13, 32 and 160.
\<close>

definition isWhiteSpace :: "char \<Rightarrow> bool" where
  "isWhiteSpace c = ((of_char c :: nat) \<in> set [9, 10, 11, 12, 13, 32, 160])"

definition trim :: "string \<Rightarrow> string" where
  "trim s = rev (dropWhile isWhiteSpace (rev (dropWhile isWhiteSpace s)))"

text \<open>\<^verbatim>\<open>s.split(c)\<close> for a separator of one character: never the empty array.\<close>

fun split :: "char \<Rightarrow> string \<Rightarrow> string list" where
  "split c [] = [[]]"
| "split c (x # xs) =
     (if x = c then [] # split c xs
      else (case split c xs of [] \<Rightarrow> [[x]] | y # ys \<Rightarrow> (x # y) # ys))"

text \<open>\<^verbatim>\<open>xs[i]\<close>: \<open>undefined\<close> out of range.\<close>

fun element_at :: "'a list \<Rightarrow> nat \<Rightarrow> 'a option" where
  "element_at [] i = None"
| "element_at (x # xs) 0 = Some x"
| "element_at (x # xs) (Suc i) = element_at xs i"

text \<open>\<^verbatim>\<open>xs.join(sep)\<close>.\<close>

fun join :: "string \<Rightarrow> string list \<Rightarrow> string" where
  "join sep [] = []"
| "join sep [x] = x"
| "join sep (x # y # ys) = x @ sep @ join sep (y # ys)"

text \<open>\<^verbatim>\<open>s.replace(/"/g, '""')\<close>: every double quote becomes two.\<close>

fun replace_quotes :: "string \<Rightarrow> string" where
  \<open>replace_quotes [] = []\<close>
| \<open>replace_quotes (c # cs) =
     (if c = CHR ''"'' then CHR ''"'' # CHR ''"'' # replace_quotes cs
      else c # replace_quotes cs)\<close>

subsection \<open>Objects with string values\<close>

text \<open>
  \<^verbatim>\<open>types.ts\<close>: a \<open>TableRow\<close> is an object whose properties are strings, and
  \<open>ExtractedData\<close> is an array of them. A row is given by the properties as they were
  defined, in that order (the members of the object in the response text); defining a key
  again replaces its value and keeps its place. These are the row's own properties; the
  row is a plain object, so its prototype is \<open>Object.prototype\<close>.
\<close>

type_synonym TableRow = "(string \<times> string) list"
type_synonym ExtractedData = "TableRow list"

text \<open>The own property of a row under a key: the last definition of the key, if any.\<close>

fun own :: "TableRow \<Rightarrow> string \<Rightarrow> string option" where
  "own [] header = None"
| "own ((k, v) # ps) header =
     (case own ps header of
        Some w \<Rightarrow> Some w
      | None \<Rightarrow> if k = header then Some v else None)"

text \<open>
  The names of the members of \<open>Object.prototype\<close> in a browser: the methods of the
  standard, and the accessor \<open>__proto__\<close> and the four methods of its annex B.
\<close>

definition Object_prototype :: "string list" where
  "Object_prototype =
     [''constructor'', ''hasOwnProperty'', ''isPrototypeOf'', ''propertyIsEnumerable'',
      ''toLocaleString'', ''toString'', ''valueOf'', ''__proto__'',
      ''__defineGetter__'', ''__defineSetter__'', ''__lookupGetter__'', ''__lookupSetter__'']"

text \<open>
  \<^verbatim>\<open>row[header]\<close>: the own property when the row has the key; otherwise what the
  prototype has under that name, a function (for \<open>__proto__\<close>, the prototype
  itself); otherwise \<open>undefined\<close>.
\<close>

datatype looked_up = Undefined | Str string | Inherited

definition get :: "TableRow \<Rightarrow> string \<Rightarrow> looked_up" where
  "get row header =
     (case own row header of
        Some v \<Rightarrow> Str v
      | None \<Rightarrow> if header \<in> set Object_prototype then Inherited else Undefined)"

fun creation_order :: "TableRow \<Rightarrow> string list" where
  "creation_order [] = []"
| "creation_order ((k, v) # ps) = k # filter (\<lambda>k'. k' \<noteq> k) (creation_order ps)"

text \<open>
  A key is an array index when it is the canonical decimal numeral of an integer
  below \<open>2\<^sup>3\<^sup>2 - 1\<close>.
\<close>

definition isDigit :: "char \<Rightarrow> bool" where
  "isDigit c = (48 \<le> (of_char c :: nat) \<and> (of_char c :: nat) \<le> 57)"

definition numeric_value :: "string \<Rightarrow> nat" where
  "numeric_value s = foldl (\<lambda>n c. 10 * n + (of_char c - 48)) 0 s"

definition isArrayIndex :: "string \<Rightarrow> bool" where
  "isArrayIndex s =
     (case s of
        [] \<Rightarrow> False
      | c # cs \<Rightarrow>
          list_all isDigit s \<and> (if c = CHR ''0'' then cs = [] else True)
          \<and> numeric_value s < 4294967295)"

text \<open>
  \<^verbatim>\<open>Object.keys(row)\<close>: the keys that are array indices in ascending numeric order,
  then the other keys in the order of their creation.
\<close>

definition Object_keys :: "TableRow \<Rightarrow> string list" where
  "Object_keys row =
     (let ks = creation_order row
      in sort_key numeric_value (filter isArrayIndex ks)
         @ filter (\<lambda>k. \<not> isArrayIndex k) ks)"

section \<open>App.tsx: the CSV serializer\<close>

text \<open>
  \<^verbatim>\<open>row[header] || ''\<close>: \<open>undefined\<close> and the empty string are falsy and give the
  empty string; a non-empty string and an inherited member are truthy and stay.
\<close>

definition or_empty :: "looked_up \<Rightarrow> looked_up" where
  "or_empty v =
     (case v of
        Undefined \<Rightarrow> Str []
      | Str s \<Rightarrow> if s = [] then Str [] else Str s
      | Inherited \<Rightarrow> Inherited)"

text \<open>
  One cell: the call of \<open>replace\<close> on the value, between two double quotes. A function
  or a plain object has no \<open>replace\<close>, and calling it throws a \<open>TypeError\<close> (whose
  message depends on the engine).
\<close>

datatype TypeError = TypeError

definition cell :: "TableRow \<Rightarrow> string \<Rightarrow> TypeError + string" where
  \<open>cell row header =
     (case or_empty (get row header) of
        Str s \<Rightarrow> Inr (''"'' @ replace_quotes s @ ''"'')
      | Undefined \<Rightarrow> Inl TypeError
      | Inherited \<Rightarrow> Inl TypeError)\<close>

text \<open>\<^verbatim>\<open>xs.map(f)\<close> for a callback that may throw: the first throw ends the loop.\<close>

fun map_or_throw :: "('a \<Rightarrow> 'e + 'b) \<Rightarrow> 'a list \<Rightarrow> 'e + 'b list" where
  "map_or_throw f [] = Inr []"
| "map_or_throw f (x # xs) =
     (case f x of
        Inl e \<Rightarrow> Inl e
      | Inr y \<Rightarrow>
          (case map_or_throw f xs of
             Inl e \<Rightarrow> Inl e
           | Inr ys \<Rightarrow> Inr (y # ys)))"

definition convertToCsv :: "ExtractedData option \<Rightarrow> TypeError + string" where
  "convertToCsv data =
     (case data of
        None \<Rightarrow> Inr []
      | Some [] \<Rightarrow> Inr []
      | Some (row0 # rest) \<Rightarrow>
          (let headers = Object_keys row0;
               headerRow = join '','' headers
           in case map_or_throw
                     (\<lambda>row. case map_or_throw (cell row) headers of
                              Inl e \<Rightarrow> Inl e
                            | Inr cells \<Rightarrow> Inr (join '','' cells))
                     (row0 # rest) of
                Inl e \<Rightarrow> Inl e
              | Inr rows \<Rightarrow> Inr (join [CHR 0x0A] (headerRow # rows))))"

text \<open>
  The text that a row puts between the quotes of a cell when the lookup finds a string
  or nothing.
\<close>

definition cell_value :: "TableRow \<Rightarrow> string \<Rightarrow> string" where
  "cell_value row header = (case own row header of Some v \<Rightarrow> v | None \<Rightarrow> [])"

section \<open>App.tsx: the image encoder\<close>

text \<open>
  A \<open>File\<close> has a MIME type and bytes; \<open>readable\<close> says whether a \<open>FileReader\<close>
  succeeds on it. \<open>readAsDataURL\<close> follows the File API: the result is
  \<^verbatim>\<open>data:<type>;base64,<payload>\<close>, the payload being the Base64 encoding (RFC 4648) of
  the bytes, and a file without a type is announced as \<^verbatim>\<open>application/octet-stream\<close>.
\<close>

record File =
  name :: string
  type :: string
  bytes :: "8 word list"
  readable :: bool

definition base64_alphabet :: string where
  "base64_alphabet = ''ABCDEFGHIJKLMNOPQRSTUVWXYZabcdefghijklmnopqrstuvwxyz0123456789+/''"

definition sextet :: "nat \<Rightarrow> char" where
  "sextet n = base64_alphabet ! (n mod 64)"

fun base64 :: "8 word list \<Rightarrow> string" where
  "base64 [] = []"
| "base64 [a] =
     [sextet (unat a div 4), sextet (unat a mod 4 * 16), CHR ''='', CHR ''='']"
| "base64 [a, b] =
     [sextet (unat a div 4), sextet (unat a mod 4 * 16 + unat b div 16),
      sextet (unat b mod 16 * 4), CHR ''='']"
| "base64 (a # b # c # rest) =
     [sextet (unat a div 4), sextet (unat a mod 4 * 16 + unat b div 16),
      sextet (unat b mod 16 * 4 + unat c div 64), sextet (unat c mod 64)] @ base64 rest"

definition readAsDataURL :: "File \<Rightarrow> string option" where
  "readAsDataURL file =
     (if readable file
      then Some (''data:'' @ (if type file = [] then ''application/octet-stream'' else type file)
                 @ '';base64,'' @ base64 (bytes file))
      else None)"

text \<open>
  \<open>fileToBase64\<close>: \<open>onload\<close> resolves with \<^verbatim>\<open>result.split(',')[1]\<close>, \<open>onerror\<close>
  rejects with the event it is given.
\<close>

definition fileToBase64 :: "File \<Rightarrow> thrown + string option" where
  "fileToBase64 file =
     (case readAsDataURL file of
        Some result \<Rightarrow> Inr (element_at (split (CHR '','') result) 1)
      | None \<Rightarrow> Inl ProgressEvent)"

section \<open>services/geminiService.ts: the extraction client\<close>

text \<open>
  The module reads the credential once and builds the client handle \<open>ai\<close> from it; no
  other statement of the module assigns \<open>ai\<close>.
\<close>

datatype GoogleGenAI = GoogleGenAI string

definition module_ai :: "string option \<Rightarrow> GoogleGenAI option" where
  "module_ai apiKey =
     (if truthy apiKey then (case apiKey of Some k \<Rightarrow> Some (GoogleGenAI k) | None \<Rightarrow> None)
      else None)"

definition isApiConfigured :: "GoogleGenAI option \<Rightarrow> bool" where
  "isApiConfigured ai = (case ai of Some client \<Rightarrow> True | None \<Rightarrow> False)"

datatype Schema =
    STRING string
  | OBJECT "(string \<times> Schema) list" "string list"
  | ARRAY Schema

definition responseSchema :: Schema where
  "responseSchema =
     ARRAY (OBJECT
       [(''row'', STRING ''The row number from the first column.''),
        (''J'', STRING ''The value from column J for this row.''),
        (''K'', STRING ''The value from column K for this row.''),
        (''L'', STRING ''The value from column L for this row.'')]
       [''row'', ''J'', ''K'', ''L''])"

record GenerateContentParameters =
  model :: string
  parts_text :: string
  inlineData_data :: "string option"
  inlineData_mimeType :: string
  config_responseMimeType :: string
  config_responseSchema :: "Schema option"

record GenerateContentResponse =
  response_text :: "string option"

text \<open>
  What the engine supplies: \<open>JSON.parse\<close> (\<open>Inl m\<close> is a \<open>SyntaxError\<close> with message
  \<open>m\<close>) and the message of the \<open>TypeError\<close> raised by calling \<open>trim\<close> on
  \<open>undefined\<close>, when the response has no text.
\<close>

record engine =
  JSON_parse :: "string \<Rightarrow> string + json"
  trim_of_undefined :: string

type_synonym generateContent =
  "GoogleGenAI \<Rightarrow> GenerateContentParameters \<Rightarrow> thrown + GenerateContentResponse"

definition fixed_schema_prompt :: string where
  \<open>fixed_schema_prompt =
     ''Analyze the handwritten data in the provided image. Extract the tabular data into a structured format. '' @ [CHR 0x0A] @
     ''            The image contains columns labeled 'J', 'K', and 'L', prefixed by a row number. '' @ [CHR 0x0A] @
     ''            Transcribe the data precisely as written, including fractions (e.g., "4'-7 1/8").'' @ [CHR 0x0A] @
     ''            Return the data as a JSON array where each object represents a row. '' @ [CHR 0x0A] @
     ''            Each object should have four keys: 'row', 'J', 'K', and 'L'. '' @ [CHR 0x0A] @
     ''            The 'row' key should correspond to the number at the beginning of each line.''\<close>

definition dynamic_header_prompt :: string where
  \<open>dynamic_header_prompt =
     ''You are an expert at transcribing handwritten tabular data from images. '' @ [CHR 0x0A] @
     ''            Your task is to analyze the provided image, identify the column headers, and extract all rows of data. '' @ [CHR 0x0A] @
     ''            Return the result as a valid JSON array of objects. '' @ [CHR 0x0A] @
     ''            Each object in the array represents a single row from the table. '' @ [CHR 0x0A] @
     ''            The keys of each object must be the column headers identified from the image. '' @ [CHR 0x0A] @
     ''            The values must be the corresponding data for that row and column. '' @ [CHR 0x0A] @
     ''            Transcribe the data exactly as it appears. '' @ [CHR 0x0A] @
     ''            Do not add any explanatory text, markdown, or anything else; your entire response must be only the JSON data.''\<close>

definition fixed_schema_request :: "string option \<Rightarrow> string \<Rightarrow> GenerateContentParameters" where
  "fixed_schema_request base64Image mimeType =
     \<lparr>model = ''gemini-2.5-flash'', parts_text = fixed_schema_prompt,
      inlineData_data = base64Image, inlineData_mimeType = mimeType,
      config_responseMimeType = ''application/json'',
      config_responseSchema = Some responseSchema\<rparr>"

definition dynamic_header_request :: "string option \<Rightarrow> string \<Rightarrow> GenerateContentParameters" where
  "dynamic_header_request base64Image mimeType =
     \<lparr>model = ''gemini-2.5-flash'', parts_text = dynamic_header_prompt,
      inlineData_data = base64Image, inlineData_mimeType = mimeType,
      config_responseMimeType = ''application/json'',
      config_responseSchema = None\<rparr>"

definition NotConfiguredError :: string where
  "NotConfiguredError = ''Application not configured: API Key is missing. Please ensure the API_KEY environment variable is set for the deployment environment.''"

definition MalformedResponseError :: string where
  "MalformedResponseError = ''The AI returned data in an unexpected format. This can sometimes happen with complex handwriting. Please try again or use a clearer image.''"

definition ServiceError :: "string \<Rightarrow> string" where
  "ServiceError m = ''Failed to process image with Gemini API: '' @ m"

definition UnknownError :: string where
  "UnknownError = ''An unknown error occurred while processing the image.''"

text \<open>
  The body of \<open>try\<close>, the same in both versions: the call, then \<open>trim\<close> on the text of
  the response, then \<open>JSON.parse\<close>, whose value is returned as it is.
\<close>

definition try_block ::
  "engine \<Rightarrow> (GenerateContentParameters \<Rightarrow> thrown + GenerateContentResponse)
     \<Rightarrow> GenerateContentParameters \<Rightarrow> thrown + json" where
  "try_block js call request =
     (case call request of
        Inl error \<Rightarrow> Inl error
      | Inr response \<Rightarrow>
          (case response_text response of
             None \<Rightarrow> Inl (Error (trim_of_undefined js))
           | Some t \<Rightarrow>
               (case JSON_parse js (trim t) of
                  Inl m \<Rightarrow> Inl (Error m)
                | Inr data \<Rightarrow> Inr data)))"

text \<open>The two \<open>catch\<close> blocks: what is thrown in place of the error caught.\<close>

definition catch_fixed_schema :: "thrown \<Rightarrow> thrown" where
  "catch_fixed_schema error =
     (case error of
        Error m \<Rightarrow> Error (ServiceError m)
      | _ \<Rightarrow> Error UnknownError)"

definition catch_dynamic_header :: "thrown \<Rightarrow> thrown" where
  "catch_dynamic_header error =
     (case error of
        Error m \<Rightarrow>
          if includes_str m ''JSON'' then Error MalformedResponseError
          else Error (ServiceError m)
      | _ \<Rightarrow> Error UnknownError)"

text \<open>
  \<open>extractDataFromImage\<close> returns its result (\<open>Inl\<close>: what it throws) and the requests
  it has sent to the service.
\<close>

definition extractDataFromImage_fixed_schema ::
  "engine \<Rightarrow> generateContent \<Rightarrow> GoogleGenAI option \<Rightarrow> string option \<Rightarrow> string
     \<Rightarrow> (thrown + json) \<times> GenerateContentParameters list" where
  "extractDataFromImage_fixed_schema js net ai base64Image mimeType =
     (case ai of
        None \<Rightarrow> (Inl (Error NotConfiguredError), [])
      | Some client \<Rightarrow>
          (let request = fixed_schema_request base64Image mimeType
           in (case try_block js (net client) request of
                 Inr data \<Rightarrow> Inr data
               | Inl error \<Rightarrow> Inl (catch_fixed_schema error),
               [request])))"

definition extractDataFromImage_dynamic_header ::
  "engine \<Rightarrow> generateContent \<Rightarrow> GoogleGenAI option \<Rightarrow> string option \<Rightarrow> string
     \<Rightarrow> (thrown + json) \<times> GenerateContentParameters list" where
  "extractDataFromImage_dynamic_header js net ai base64Image mimeType =
     (case ai of
        None \<Rightarrow> (Inl (Error NotConfiguredError), [])
      | Some client \<Rightarrow>
          (let request = dynamic_header_request base64Image mimeType
           in (case try_block js (net client) request of
                 Inr data \<Rightarrow> Inr data
               | Inl error \<Rightarrow> Inl (catch_dynamic_header error),
               [request])))"

datatype version = FixedSchema | DynamicHeader

fun extractDataFromImage ::
  "version \<Rightarrow> engine \<Rightarrow> generateContent \<Rightarrow> GoogleGenAI option \<Rightarrow> string option \<Rightarrow> string
     \<Rightarrow> (thrown + json) \<times> GenerateContentParameters list" where
  "extractDataFromImage FixedSchema = extractDataFromImage_fixed_schema"
| "extractDataFromImage DynamicHeader = extractDataFromImage_dynamic_header"

section \<open>App.tsx: the view controller\<close>

text \<open>
  The six \<open>useState\<close> cells of \<open>App\<close>. \<open>extractedData\<close> holds whatever
  \<open>extractDataFromImage\<close> returned, \<^const>\<open>JNull\<close> being \<open>null\<close>.
\<close>

record AppState =
  imageFile :: "File option"
  imageDataUrl :: "string option"
  extractedData :: json
  isLoading :: bool
  error :: "string option"
  configError :: "string option"

definition initial_state :: AppState where
  "initial_state =
     \<lparr>imageFile = None, imageDataUrl = None, extractedData = JNull, isLoading = False,
      error = None, configError = None\<rparr>"

definition ConfigurationError :: string where
  "ConfigurationError = ''Configuration Error: The API key is not set. This application is non-functional. Please ensure the API_KEY environment variable is configured for deployment.''"

text \<open>The effect that runs once, after the first render.\<close>

definition useEffect_mount :: "GoogleGenAI option \<Rightarrow> AppState \<Rightarrow> AppState" where
  "useEffect_mount ai s =
     (if \<not> isApiConfigured ai then s\<lparr>configError := Some ConfigurationError\<rparr> else s)"

definition ValidationError :: string where
  "ValidationError = ''Please select a valid image file (JPG, JPEG, PNG).''"

text \<open>
  \<open>handleFileChange\<close>: the event carries \<^verbatim>\<open>event.target.files?.[0]\<close>, which is
  \<open>undefined\<close> when no file was chosen; \<open>mkUrl\<close> is \<open>URL.createObjectURL\<close>.
\<close>

definition handleFileChange :: "(File \<Rightarrow> string) \<Rightarrow> File option \<Rightarrow> AppState \<Rightarrow> AppState" where
  "handleFileChange mkUrl event s =
     (let s1 = s\<lparr>error := None\<rparr>
      in case event of
           None \<Rightarrow> s1\<lparr>error := Some ValidationError, imageFile := None, imageDataUrl := None\<rparr>
         | Some file \<Rightarrow>
             if type file = ''image/jpeg'' \<or> type file = ''image/jpg'' \<or> type file = ''image/png''
             then s1\<lparr>imageFile := Some file, imageDataUrl := Some (mkUrl file),
                     extractedData := JNull\<rparr>
             else s1\<lparr>error := Some ValidationError, imageFile := None,
                     imageDataUrl := None\<rparr>)"

text \<open>
  \<open>handleExtractData\<close> in its three parts. The first runs up to the first \<open>await\<close>:
  the two guards, then the three state updates; it gives the file whose extraction is
  dispatched, or nothing when a guard returned. The second is the awaited work. The
  third is what \<open>try\<close>, \<open>catch\<close> and \<open>finally\<close> write once the work has settled, on
  the state as it is then.
\<close>

definition handleExtractData_begin :: "AppState \<Rightarrow> AppState \<times> File option" where
  "handleExtractData_begin s =
     (if truthy (configError s) then (s, None)
      else case imageFile s of
             None \<Rightarrow> (s\<lparr>error := Some ''Please upload an image first.''\<rparr>, None)
           | Some file \<Rightarrow>
               (s\<lparr>isLoading := True, error := None, extractedData := JNull\<rparr>, Some file))"

definition awaited ::
  "version \<Rightarrow> engine \<Rightarrow> generateContent \<Rightarrow> GoogleGenAI option \<Rightarrow> File
     \<Rightarrow> (thrown + json) \<times> GenerateContentParameters list" where
  "awaited v js net ai file =
     (case fileToBase64 file of
        Inl err \<Rightarrow> (Inl err, [])
      | Inr base64Image \<Rightarrow> extractDataFromImage v js net ai base64Image (type file))"

definition handleExtractData_settle :: "thrown + json \<Rightarrow> AppState \<Rightarrow> AppState" where
  "handleExtractData_settle outcome s =
     (case outcome of
        Inr data \<Rightarrow> s\<lparr>extractedData := data\<rparr>
      | Inl err \<Rightarrow>
          s\<lparr>error := Some (case err of Error m \<Rightarrow> m
                                      | _ \<Rightarrow> ''An unexpected error occurred.'')\<rparr>)
     \<lparr>isLoading := False\<rparr>"

definition handleExtractData ::
  "version \<Rightarrow> engine \<Rightarrow> generateContent \<Rightarrow> GoogleGenAI option \<Rightarrow> AppState
     \<Rightarrow> AppState \<times> GenerateContentParameters list" where
  "handleExtractData v js net ai s =
     (case handleExtractData_begin s of
        (s1, None) \<Rightarrow> (s1, [])
      | (s1, Some file) \<Rightarrow>
          (case awaited v js net ai file of
             (outcome, sent) \<Rightarrow> (handleExtractData_settle outcome s1, sent)))"

subsection \<open>A session\<close>

text \<open>
  A session is the module state (the handle \<open>ai\<close>), the component state and the requests
  sent so far. Its surroundings are the engine, the service (which may answer the \<open>n\<close>-th
  request of the session in its own way), \<open>URL.createObjectURL\<close> and the version of the
  service module in use. The user's actions are the three handlers of the page;
  \<open>handleDownload\<close> builds a blob and clicks a link, and writes no state.
\<close>

record Session =
  ai :: "GoogleGenAI option"
  app :: AppState
  requests :: "GenerateContentParameters list"

record surroundings =
  runtime :: engine
  service :: "nat \<Rightarrow> generateContent"
  createObjectURL :: "File \<Rightarrow> string"
  deployed :: version

definition startup :: "string option \<Rightarrow> Session" where
  "startup apiKey =
     \<lparr>ai = module_ai apiKey, app = useEffect_mount (module_ai apiKey) initial_state,
      requests = []\<rparr>"

datatype action = FileChange "File option" | ExtractData | Download

fun step :: "surroundings \<Rightarrow> Session \<Rightarrow> action \<Rightarrow> Session" where
  "step w x (FileChange event) = x\<lparr>app := handleFileChange (createObjectURL w) event (app x)\<rparr>"
| "step w x ExtractData =
     (case handleExtractData (deployed w) (runtime w) (service w (length (requests x))) (ai x) (app x) of
        (s, sent) \<Rightarrow> x\<lparr>app := s, requests := requests x @ sent\<rparr>)"
| "step w x Download = x"

definition run :: "surroundings \<Rightarrow> Session \<Rightarrow> action list \<Rightarrow> Session" where
  "run w x actions = foldl (step w) x actions"

subsection \<open>The selected file\<close>

text \<open>What \<open>handleFileChange\<close> lets into \<open>imageFile\<close>: nothing, or a file of the three types.\<close>

definition accepted :: "File option \<Rightarrow> bool" where
  "accepted f = (case f of None \<Rightarrow> True
     | Some file \<Rightarrow> type file = ''image/jpeg'' \<or> type file = ''image/jpg'' \<or> type file = ''image/png'')"

section \<open>Shapes of a parsed value\<close>

text \<open>
  The shape \<^verbatim>\<open>types.ts\<close> gives to \<open>ExtractedData\<close> by the index signature of
  \<open>TableRow\<close>: an array of objects whose values are strings (the four keys of the fixed
  schema are not asked for); and the rows of an array having the keys of the first one.
\<close>

fun is_string :: "json \<Rightarrow> bool" where
  "is_string (JString s) = True"
| "is_string v = False"

fun is_TableRow :: "json \<Rightarrow> bool" where
  "is_TableRow (JObject ps) = list_all (\<lambda>p. is_string (snd p)) ps"
| "is_TableRow v = False"

fun is_ExtractedData :: "json \<Rightarrow> bool" where
  "is_ExtractedData (JArray rows) = list_all is_TableRow rows"
| "is_ExtractedData v = False"

fun keys_of :: "json \<Rightarrow> string set" where
  "keys_of (JObject ps) = set (map fst ps)"
| "keys_of v = {}"

fun same_keys :: "json \<Rightarrow> bool" where
  "same_keys (JArray []) = True"
| "same_keys (JArray (r # rs)) = list_all (\<lambda>r'. keys_of r' = keys_of r) rs"
| "same_keys v = True"

section \<open>Surroundings for the closed examples\<close>

text \<open>
  An engine that answers as V8 does on the texts of the examples below (any other text is
  refused with V8's message for the empty text), a service that answers every request
  with one text, and a service whose every call fails with one value.
\<close>

definition v8_table :: "(string \<times> (string + json)) list" where
  \<open>v8_table =
     [(''[]'', Inr (JArray [])),
      (''{"a":1}'', Inr (JObject [(''a'', JNumber 1)])),
      (''[{"a":"1"},{"b":"2"}]'',
         Inr (JArray [JObject [(''a'', JString ''1'')], JObject [(''b'', JString ''2'')]])),
      (''<html>'', Inl ''Unexpected token '<', "<html>" is not valid JSON'')]\<close>

definition v8 :: engine where
  \<open>v8 =
     \<lparr>JSON_parse =
        (\<lambda>t. case map_of v8_table t of
               Some r \<Rightarrow> r
             | None \<Rightarrow> Inl ''Unexpected end of JSON input''),
      trim_of_undefined = ''Cannot read properties of undefined (reading 'trim')''\<rparr>\<close>

definition answers :: "string option \<Rightarrow> generateContent" where
  "answers t client request = Inr \<lparr>response_text = t\<rparr>"

definition fails :: "thrown \<Rightarrow> generateContent" where
  "fails e client request = Inl e"

definition png_file :: File where
  "png_file = \<lparr>name = ''table.png'', type = ''image/png'', bytes = [0x4d, 0x61, 0x6e], readable = True\<rparr>"

definition text_file :: File where
  "text_file = \<lparr>name = ''notes.txt'', type = ''text/plain'', bytes = [0x4d, 0x61], readable = True\<rparr>"

definition browser :: "generateContent \<Rightarrow> version \<Rightarrow> surroundings" where
  "browser net v =
     \<lparr>runtime = v8, service = (\<lambda>n. net), createObjectURL = (\<lambda>file. ''blob:'' @ name file),
      deployed = v\<rparr>"

section \<open>Facts about the string and object operations\<close>

lemma split_without_separator: "c \<notin> set s \<Longrightarrow> split c s = [s]"
  by (induction s) auto

lemma split_at_separator: "c \<notin> set x \<Longrightarrow> split c (x @ c # rest) = x # split c rest"
  by (induction x) auto

lemma split_join:
  "xs \<noteq> [] \<Longrightarrow> (\<forall>x \<in> set xs. c \<notin> set x) \<Longrightarrow> split c (join [c] xs) = xs"
proof (induction "[c]" xs rule: join.induct)
  case 1
  then show ?case by simp
next
  case (2 x)
  then show ?case by (simp add: split_without_separator)
next
  case (3 x y ys)
  then show ?case by (simp add: split_at_separator)
qed

lemma set_join: "set (join sep xs) \<subseteq> set sep \<union> \<Union> (set ` set xs)"
  by (induction sep xs rule: join.induct) auto

lemma join_chars:
  assumes "\<forall>x \<in> set xs. c \<notin> set x" and "c \<notin> set sep"
  shows "c \<notin> set (join sep xs)"
  using assms set_join [of sep xs] by auto



lemma set_replace_quotes: \<open>set (replace_quotes s) \<subseteq> insert (CHR ''"'') (set s)\<close>
  by (induction s) auto

lemma replace_quotes_concat:
  \<open>replace_quotes s = concat (map (\<lambda>c. if c = CHR ''"'' then ''""'' else [c]) s)\<close>
  by (induction s) auto

lemma own_Some_mem: "own row header = Some v \<Longrightarrow> (header, v) \<in> set row"
  by (induction row header rule: own.induct) (auto split: option.splits if_splits)

lemma own_None_iff: "own row header = None \<longleftrightarrow> header \<notin> fst ` set row"
  by (induction row header rule: own.induct) (auto split: option.splits)

lemma get_Inherited_iff:
  "get row header = Inherited \<longleftrightarrow> header \<notin> fst ` set row \<and> header \<in> set Object_prototype"
  using own_None_iff [of row header] by (auto simp add: get_def split: option.splits)

lemma cell_returns:
  \<open>get row header \<noteq> Inherited
     \<Longrightarrow> cell row header = Inr (''"'' @ replace_quotes (cell_value row header) @ ''"'')\<close>
  by (auto simp add: cell_def get_def or_empty_def cell_value_def split: option.splits if_splits)

lemma cell_throws: "get row header = Inherited \<Longrightarrow> cell row header = Inl TypeError"
  by (simp add: cell_def or_empty_def)

lemma map_or_throw_returns:
  "(\<forall>x \<in> set xs. f x = Inr (g x)) \<Longrightarrow> map_or_throw f xs = Inr (map g xs)"
  by (induction xs) simp_all

lemma map_or_throw_throws:
  "x \<in> set xs \<Longrightarrow> f x = Inl TypeError \<Longrightarrow> map_or_throw f xs = Inl TypeError"
proof (induction xs)
  case Nil
  then show ?case by simp
next
  case (Cons a xs)
  show ?case
  proof (cases "f a")
    case (Inl e)
    then show ?thesis by (cases e) simp
  next
    case (Inr y)
    with Cons.prems have "x \<in> set xs" by auto
    with Cons have "map_or_throw f xs = Inl TypeError" by simp
    with Inr show ?thesis by simp
  qed
qed

lemma set_creation_order: "set (creation_order row) = fst ` set row"
  by (induction row rule: creation_order.induct) auto


lemma set_Object_keys: "set (Object_keys row) = fst ` set row"
  by (auto simp add: Object_keys_def Let_def set_creation_order)








lemma convertToCsv_returns:
  assumes "\<forall>row \<in> set (row0 # rest). \<forall>header \<in> fst ` set row0. get row header \<noteq> Inherited"
  shows \<open>convertToCsv (Some (row0 # rest))
     = Inr (join [CHR 0x0A]
         (join '','' (Object_keys row0)
          # map (\<lambda>row. join '','' (map (\<lambda>header. ''"'' @ replace_quotes (cell_value row header) @ ''"'')
                                      (Object_keys row0)))
              (row0 # rest)))\<close>
proof -
  let ?q = \<open>\<lambda>row header. ''"'' @ replace_quotes (cell_value row header) @ ''"''\<close>
  let ?line = "\<lambda>row. case map_or_throw (cell row) (Object_keys row0) of
                     Inl e \<Rightarrow> Inl e | Inr cells \<Rightarrow> Inr (join '','' cells)"
  have cells: "map_or_throw (cell row) (Object_keys row0) = Inr (map (?q row) (Object_keys row0))"
    if "row \<in> set (row0 # rest)" for row
  proof (rule map_or_throw_returns, rule ballI)
    fix header assume "header \<in> set (Object_keys row0)"
    then have "header \<in> fst ` set row0" by (simp add: set_Object_keys)
    with assms that have "get row header \<noteq> Inherited" by blast
    then show "cell row header = Inr (?q row header)" by (rule cell_returns)
  qed
  have "\<forall>row \<in> set (row0 # rest). ?line row = Inr (join '','' (map (?q row) (Object_keys row0)))"
    using cells by simp
  then have "map_or_throw ?line (row0 # rest)
      = Inr (map (\<lambda>row. join '','' (map (?q row) (Object_keys row0))) (row0 # rest))"
    by (rule map_or_throw_returns)
  then show ?thesis by (simp add: convertToCsv_def Let_def)
qed

lemma convertToCsv_throws:
  assumes "row \<in> set (row0 # rest)" and "header \<in> fst ` set row0"
    and "get row header = Inherited"
  shows "convertToCsv (Some (row0 # rest)) = Inl TypeError"
proof -
  let ?line = "\<lambda>row. case map_or_throw (cell row) (Object_keys row0) of
                     Inl e \<Rightarrow> Inl e | Inr cells \<Rightarrow> Inr (join '','' cells)"
  have "header \<in> set (Object_keys row0)"
    using assms(2) by (simp add: set_Object_keys)
  then have "map_or_throw (cell row) (Object_keys row0) = Inl TypeError"
    using cell_throws [OF assms(3)] by (rule map_or_throw_throws)
  then have "?line row = Inl TypeError" by simp
  with assms(1) have "map_or_throw ?line (row0 # rest) = Inl TypeError"
    by (rule map_or_throw_throws)
  then show ?thesis by (simp add: convertToCsv_def Let_def)
qed

section \<open>Facts about the encoder\<close>

lemma comma_not_base64: "CHR '','' \<notin> set base64_alphabet"
  by (simp add: base64_alphabet_def)

lemma sextet_not_comma: "sextet n \<noteq> CHR '',''"
proof -
  have "n mod 64 < length base64_alphabet"
    by (simp add: base64_alphabet_def)
  then have "sextet n \<in> set base64_alphabet"
    unfolding sextet_def by (rule nth_mem)
  with comma_not_base64 show ?thesis by auto
qed

lemma base64_no_comma: "CHR '','' \<notin> set (base64 bs)"
  by (induction bs rule: base64.induct) (simp_all add: sextet_not_comma [symmetric])

lemma data_url_split:
  assumes "CHR '','' \<notin> set p" and "CHR '','' \<notin> set payload"
  shows "element_at (split (CHR '','') (p @ '','' @ payload)) 1 = Some payload"
  using assms by (simp add: split_at_separator split_without_separator)

section \<open>Facts about a session\<close>

lemma step_configError: "configError (app (step w x a)) = configError (app x)"
  by (cases a)
    (auto simp add: handleFileChange_def handleExtractData_def handleExtractData_begin_def
      handleExtractData_settle_def Let_def split: option.splits prod.splits sum.splits)

lemma step_ai: "ai (step w x a) = ai x"
  by (cases a) (auto split: prod.splits)

lemma run_ai: "ai (run w x actions) = ai x"
  unfolding run_def by (induction actions arbitrary: x) (simp_all add: step_ai)

lemma run_configError: "configError (app (run w x actions)) = configError (app x)"
  unfolding run_def by (induction actions arbitrary: x) (simp_all add: step_configError)

lemma guarded_step_requests:
  "truthy (configError (app x)) \<Longrightarrow> requests (step w x a) = requests x"
  by (cases a) (auto simp add: handleExtractData_def handleExtractData_begin_def)

lemma guarded_run_requests:
  "truthy (configError (app x)) \<Longrightarrow> requests (run w x actions) = requests x"
  unfolding run_def
  by (induction actions arbitrary: x) (simp_all add: step_configError guarded_step_requests)

lemma guarded_extract_noop:
  "truthy (configError (app x)) \<Longrightarrow> step w x ExtractData = x"
  by (simp add: handleExtractData_def handleExtractData_begin_def)

lemma step_accepted: "accepted (imageFile (app x)) \<Longrightarrow> accepted (imageFile (app (step w x a)))"
  by (cases a)
    (auto simp add: accepted_def handleFileChange_def handleExtractData_def
      handleExtractData_begin_def handleExtractData_settle_def Let_def
      split: option.splits prod.splits sum.splits if_splits)

lemma run_accepted: "accepted (imageFile (app x)) \<Longrightarrow> accepted (imageFile (app (run w x actions)))"
  unfolding run_def by (induction actions arbitrary: x) (simp_all add: step_accepted)

lemma startup_accepted: "accepted (imageFile (app (startup apiKey)))"
  by (simp add: startup_def useEffect_mount_def initial_state_def accepted_def)

lemma handleFileChange_keeps_null:
  "extractedData s = JNull \<Longrightarrow> extractedData (handleFileChange mkUrl event s) = JNull"
  by (auto simp add: handleFileChange_def Let_def split: option.splits)

lemma file_changes_keep_null:
  "extractedData s = JNull
     \<Longrightarrow> extractedData (foldl (\<lambda>s event. handleFileChange mkUrl event s) s events) = JNull"
  by (induction events arbitrary: s) (simp_all add: handleFileChange_keeps_null)

section \<open>The extraction client\<close>

text \<open>
  C1 (amended). In the dynamic-header version, when the body of \<open>try\<close> throws an
  \<open>Error\<close> whose message contains \<open>JSON\<close>, \<open>extractDataFromImage\<close> throws the
  fixed \<open>MalformedResponseError\<close> message; this is what happens to a response text
  that \<open>JSON.parse\<close> refuses, on an engine whose \<open>SyntaxError\<close> messages contain
  \<open>JSON\<close>. In both versions, when the body throws an \<open>Error\<close> whose message does not
  contain \<open>JSON\<close>, \<open>extractDataFromImage\<close> throws the \<open>ServiceError\<close> that wraps
  that message, and when it throws a value that is not an \<open>Error\<close>,
  \<open>extractDataFromImage\<close> throws the fixed unknown-error message.
\<close>

theorem failure_classification:
  "(net client (dynamic_header_request base64Image mimeType) = Inr response
      \<and> response_text response = Some t \<and> JSON_parse js (trim t) = Inl m
      \<and> includes_str m ''JSON''
    \<longrightarrow> fst (extractDataFromImage_dynamic_header js net (Some client) base64Image mimeType)
        = Inl (Error MalformedResponseError))
   \<and> (try_block js (net client) (dynamic_header_request base64Image mimeType) = Inl (Error m')
      \<and> includes_str m' ''JSON''
    \<longrightarrow> fst (extractDataFromImage_dynamic_header js net (Some client) base64Image mimeType)
        = Inl (Error MalformedResponseError))
   \<and> (try_block js (net client) (dynamic_header_request base64Image mimeType) = Inl (Error m')
      \<and> \<not> includes_str m' ''JSON''
    \<longrightarrow> fst (extractDataFromImage_dynamic_header js net (Some client) base64Image mimeType)
        = Inl (Error (ServiceError m')))
   \<and> (try_block js (net client) (fixed_schema_request base64Image mimeType) = Inl (Error m')
      \<and> \<not> includes_str m' ''JSON''
    \<longrightarrow> fst (extractDataFromImage_fixed_schema js net (Some client) base64Image mimeType)
        = Inl (Error (ServiceError m')))
   \<and> (try_block js (net client) (dynamic_header_request base64Image mimeType) = Inl e
      \<and> (case e of Error x \<Rightarrow> False | _ \<Rightarrow> True)
    \<longrightarrow> fst (extractDataFromImage_dynamic_header js net (Some client) base64Image mimeType)
        = Inl (Error UnknownError))
   \<and> (try_block js (net client) (fixed_schema_request base64Image mimeType) = Inl e
      \<and> (case e of Error x \<Rightarrow> False | _ \<Rightarrow> True)
    \<longrightarrow> fst (extractDataFromImage_fixed_schema js net (Some client) base64Image mimeType)
        = Inl (Error UnknownError))"
  by (auto simp add: extractDataFromImage_fixed_schema_def extractDataFromImage_dynamic_header_def
      try_block_def catch_fixed_schema_def catch_dynamic_header_def split: thrown.splits)

text \<open>
  The six cases on V8: a text that does not parse, a failed call whose message contains
  \<open>JSON\<close>, a response without text, a failed call, and a thrown value that is not an
  \<open>Error\<close>, in either version.
\<close>

theorem failure_classification_witness:
  \<open>fst (extractDataFromImage_dynamic_header v8 (answers (Some ''<html>'')) (Some (GoogleGenAI ''key''))
          (Some ''TWFu'') ''image/png'') = Inl (Error MalformedResponseError)
   \<and> fst (extractDataFromImage_dynamic_header v8 (fails (Error ''Invalid JSON payload received.''))
          (Some (GoogleGenAI ''key'')) (Some ''TWFu'') ''image/png'') = Inl (Error MalformedResponseError)
   \<and> fst (extractDataFromImage_dynamic_header v8 (answers None) (Some (GoogleGenAI ''key''))
          (Some ''TWFu'') ''image/png'')
       = Inl (Error (ServiceError ''Cannot read properties of undefined (reading 'trim')''))
   \<and> fst (extractDataFromImage_fixed_schema v8 (fails (Error ''fetch failed'')) (Some (GoogleGenAI ''key''))
          (Some ''TWFu'') ''image/png'') = Inl (Error (ServiceError ''fetch failed''))
   \<and> fst (extractDataFromImage_dynamic_header v8 (fails OtherValue) (Some (GoogleGenAI ''key''))
          (Some ''TWFu'') ''image/png'') = Inl (Error UnknownError)
   \<and> fst (extractDataFromImage_fixed_schema v8 (fails OtherValue) (Some (GoogleGenAI ''key''))
          (Some ''TWFu'') ''image/png'') = Inl (Error UnknownError)\<close>
proof -
  let ?c = "GoogleGenAI ''key''" and ?b = "Some ''TWFu''" and ?t = "''image/png''"
  have p: \<open>answers (Some ''<html>'') ?c (dynamic_header_request ?b ?t) = Inr \<lparr>response_text = Some ''<html>''\<rparr>
      \<and> response_text \<lparr>response_text = Some ''<html>''\<rparr> = Some ''<html>''
      \<and> JSON_parse v8 (trim ''<html>'') = Inl ''Unexpected token '<', "<html>" is not valid JSON''
      \<and> includes_str ''Unexpected token '<', "<html>" is not valid JSON'' ''JSON''\<close>
    by (simp add: answers_def v8_def v8_table_def trim_def isWhiteSpace_def)
  have q: "try_block v8 (fails (Error ''Invalid JSON payload received.'') ?c) (dynamic_header_request ?b ?t)
        = Inl (Error ''Invalid JSON payload received.'')
      \<and> includes_str ''Invalid JSON payload received.'' ''JSON''"
    by (simp add: try_block_def fails_def)
  have r: \<open>try_block v8 (answers None ?c) (dynamic_header_request ?b ?t)
        = Inl (Error ''Cannot read properties of undefined (reading 'trim')'')
      \<and> \<not> includes_str ''Cannot read properties of undefined (reading 'trim')'' ''JSON''\<close>
    by (simp add: try_block_def answers_def v8_def)
  have s: "try_block v8 (fails (Error ''fetch failed'') ?c) (fixed_schema_request ?b ?t)
        = Inl (Error ''fetch failed'')
      \<and> \<not> includes_str ''fetch failed'' ''JSON''"
    by (simp add: try_block_def fails_def)
  have u: "try_block v8 (fails OtherValue ?c) (dynamic_header_request ?b ?t) = Inl OtherValue
      \<and> try_block v8 (fails OtherValue ?c) (fixed_schema_request ?b ?t) = Inl OtherValue
      \<and> (case OtherValue of Error x \<Rightarrow> False | _ \<Rightarrow> True)"
    by (simp add: try_block_def fails_def)
  from failure_classification [where net = "answers (Some ''<html>'')" and client = ?c
        and ?base64Image = ?b and mimeType = ?t and js = v8
        and response = "\<lparr>response_text = Some ''<html>''\<rparr>" and t = "''<html>''"
        and m = \<open>''Unexpected token '<', "<html>" is not valid JSON''\<close>] p
  have 1: "fst (extractDataFromImage_dynamic_header v8 (answers (Some ''<html>'')) (Some ?c) ?b ?t)
      = Inl (Error MalformedResponseError)"
    by blast
  from failure_classification [where net = "fails (Error ''Invalid JSON payload received.'')"
        and client = ?c and ?base64Image = ?b and mimeType = ?t and js = v8
        and m' = "''Invalid JSON payload received.''"] q
  have 2: "fst (extractDataFromImage_dynamic_header v8 (fails (Error ''Invalid JSON payload received.''))
        (Some ?c) ?b ?t) = Inl (Error MalformedResponseError)"
    by blast
  from failure_classification [where net = "answers None"
        and client = ?c and ?base64Image = ?b and mimeType = ?t and js = v8
        and m' = \<open>''Cannot read properties of undefined (reading 'trim')''\<close>] r
  have 3: \<open>fst (extractDataFromImage_dynamic_header v8 (answers None) (Some ?c) ?b ?t)
      = Inl (Error (ServiceError ''Cannot read properties of undefined (reading 'trim')''))\<close>
    by blast
  from failure_classification [where net = "fails (Error ''fetch failed'')"
        and client = ?c and ?base64Image = ?b and mimeType = ?t and js = v8
        and m' = "''fetch failed''"] s
  have 4: "fst (extractDataFromImage_fixed_schema v8 (fails (Error ''fetch failed'')) (Some ?c) ?b ?t)
      = Inl (Error (ServiceError ''fetch failed''))"
    by blast
  from failure_classification [where net = "fails OtherValue"
        and client = ?c and ?base64Image = ?b and mimeType = ?t and js = v8 and e = OtherValue] u
  have 5: "fst (extractDataFromImage_dynamic_header v8 (fails OtherValue) (Some ?c) ?b ?t)
        = Inl (Error UnknownError)
      \<and> fst (extractDataFromImage_fixed_schema v8 (fails OtherValue) (Some ?c) ?b ?t)
        = Inl (Error UnknownError)"
    by blast
  from 1 2 3 4 5 show ?thesis by blast
qed

text \<open>
  As first stated, C1 asks for the \<open>MalformedResponseError\<close> message on a text that does
  not parse in both versions, and for the wrapping \<open>ServiceError\<close> on every other
  failure. The fixed-schema version wraps the parser's message; the dynamic-header
  version answers a failed call whose message contains \<open>JSON\<close> with the
  \<open>MalformedResponseError\<close> message, and a thrown value without a message with the
  unknown-error message.
\<close>

theorem classification_counterexample:
  \<open>fst (extractDataFromImage_fixed_schema v8 (answers (Some ''<html>'')) (Some (GoogleGenAI ''key''))
          (Some ''TWFu'') ''image/png'')
     = Inl (Error (ServiceError ''Unexpected token '<', "<html>" is not valid JSON''))
   \<and> Error (ServiceError ''Unexpected token '<', "<html>" is not valid JSON'') \<noteq> Error MalformedResponseError
   \<and> fst (extractDataFromImage_dynamic_header v8 (fails (Error ''Invalid JSON payload received.''))
          (Some (GoogleGenAI ''key'')) (Some ''TWFu'') ''image/png'')
     = Inl (Error MalformedResponseError)
   \<and> Error MalformedResponseError \<noteq> Error (ServiceError ''Invalid JSON payload received.'')
   \<and> fst (extractDataFromImage_dynamic_header v8 (fails OtherValue)
          (Some (GoogleGenAI ''key'')) (Some ''TWFu'') ''image/png'')
     = Inl (Error UnknownError)\<close>
  by (simp add: extractDataFromImage_fixed_schema_def extractDataFromImage_dynamic_header_def
      try_block_def catch_fixed_schema_def catch_dynamic_header_def v8_def v8_table_def
      answers_def fails_def trim_def isWhiteSpace_def ServiceError_def MalformedResponseError_def)

text \<open>
  C3. When the credential is absent (undefined or empty), the client handle is \<open>null\<close>
  and \<open>extractDataFromImage\<close>, in both versions, throws the \<open>NotConfiguredError\<close>
  message at once: no request is built and none is sent.
\<close>

theorem not_configured_fails_before_any_request:
  "\<not> truthy apiKey \<Longrightarrow>
     module_ai apiKey = None
     \<and> extractDataFromImage_fixed_schema js net (module_ai apiKey) base64Image mimeType
         = (Inl (Error NotConfiguredError), [])
     \<and> extractDataFromImage_dynamic_header js net (module_ai apiKey) base64Image mimeType
         = (Inl (Error NotConfiguredError), [])"
  by (simp add: module_ai_def extractDataFromImage_fixed_schema_def
      extractDataFromImage_dynamic_header_def)

theorem not_configured_witness:
  "\<not> truthy None \<and> module_ai None = None
   \<and> extractDataFromImage_fixed_schema v8 (answers (Some ''[]'')) (module_ai None) (Some ''TWFu'') ''image/png''
       = (Inl (Error NotConfiguredError), [])
   \<and> extractDataFromImage_dynamic_header v8 (answers (Some ''[]'')) (module_ai None) (Some ''TWFu'') ''image/png''
       = (Inl (Error NotConfiguredError), [])"
proof -
  have h: "\<not> truthy None" by simp
  from not_configured_fails_before_any_request [OF h, of v8 "answers (Some ''[]'')" "Some ''TWFu''" "''image/png''"]
  show ?thesis using h by blast
qed

text \<open>
  C9. When the service answers with a text whose trimmed form parses,
  \<open>extractDataFromImage\<close> returns the parsed value as it is, in both versions and
  whatever its shape: the statement puts no condition on \<open>data\<close>.
\<close>

theorem parsed_value_returned_unchanged:
  "(net client (fixed_schema_request base64Image mimeType) = Inr response
      \<and> response_text response = Some t \<and> JSON_parse js (trim t) = Inr data
    \<longrightarrow> fst (extractDataFromImage_fixed_schema js net (Some client) base64Image mimeType) = Inr data)
   \<and> (net client (dynamic_header_request base64Image mimeType) = Inr response
      \<and> response_text response = Some t \<and> JSON_parse js (trim t) = Inr data
    \<longrightarrow> fst (extractDataFromImage_dynamic_header js net (Some client) base64Image mimeType) = Inr data)"
  by (simp add: extractDataFromImage_fixed_schema_def extractDataFromImage_dynamic_header_def
      try_block_def)

text \<open>
  An object that is not an array, and an array whose rows have different keys, are both
  returned.
\<close>

theorem parsed_value_returned_unchanged_witness:
  \<open>\<not> is_ExtractedData (JObject [(''a'', JNumber 1)])
   \<and> fst (extractDataFromImage_fixed_schema v8 (answers (Some '' {"a":1}  '')) (Some (GoogleGenAI ''key''))
         (Some ''TWFu'') ''image/png'') = Inr (JObject [(''a'', JNumber 1)])
   \<and> \<not> same_keys (JArray [JObject [(''a'', JString ''1'')], JObject [(''b'', JString ''2'')]])
   \<and> fst (extractDataFromImage_dynamic_header v8 (answers (Some ''[{"a":"1"},{"b":"2"}]''))
         (Some (GoogleGenAI ''key'')) (Some ''TWFu'') ''image/png'')
       = Inr (JArray [JObject [(''a'', JString ''1'')], JObject [(''b'', JString ''2'')]])\<close>
proof -
  have a: \<open>answers (Some '' {"a":1}  '') (GoogleGenAI ''key'') (fixed_schema_request (Some ''TWFu'') ''image/png'')
            = Inr \<lparr>response_text = Some '' {"a":1}  ''\<rparr>\<close>
    by (simp add: answers_def)
  have b: \<open>JSON_parse v8 (trim '' {"a":1}  '') = Inr (JObject [(''a'', JNumber 1)])\<close>
    by (simp add: v8_def v8_table_def trim_def isWhiteSpace_def)
  have c: \<open>answers (Some ''[{"a":"1"},{"b":"2"}]'') (GoogleGenAI ''key'')
              (dynamic_header_request (Some ''TWFu'') ''image/png'')
            = Inr \<lparr>response_text = Some ''[{"a":"1"},{"b":"2"}]''\<rparr>\<close>
    by (simp add: answers_def)
  have d: \<open>JSON_parse v8 (trim ''[{"a":"1"},{"b":"2"}]'')
            = Inr (JArray [JObject [(''a'', JString ''1'')], JObject [(''b'', JString ''2'')]])\<close>
    by (simp add: v8_def v8_table_def trim_def isWhiteSpace_def)
  have e: \<open>\<not> is_ExtractedData (JObject [(''a'', JNumber 1)])\<close> by simp
  have f: \<open>\<not> same_keys (JArray [JObject [(''a'', JString ''1'')], JObject [(''b'', JString ''2'')]])\<close>
    by simp
  from parsed_value_returned_unchanged [where net = \<open>answers (Some '' {"a":1}  '')\<close>
      and client = "GoogleGenAI ''key''" and ?base64Image = "Some ''TWFu''"
      and mimeType = "''image/png''" and response = \<open>\<lparr>response_text = Some '' {"a":1}  ''\<rparr>\<close>
      and t = \<open>'' {"a":1}  ''\<close> and js = v8 and data = "JObject [(''a'', JNumber 1)]"]
    parsed_value_returned_unchanged [where net = \<open>answers (Some ''[{"a":"1"},{"b":"2"}]'')\<close>
      and client = "GoogleGenAI ''key''" and ?base64Image = "Some ''TWFu''"
      and mimeType = "''image/png''"
      and response = \<open>\<lparr>response_text = Some ''[{"a":"1"},{"b":"2"}]''\<rparr>\<close>
      and t = \<open>''[{"a":"1"},{"b":"2"}]''\<close> and js = v8
      and data = "JArray [JObject [(''a'', JString ''1'')], JObject [(''b'', JString ''2'')]]"]
  show ?thesis using a b c d e f by simp
qed

section \<open>The CSV serializer\<close>

text \<open>
  C2 (amended). For data with at least one row, whose first row has at least one key,
  where no key of the first row and no value written to a cell contains a comma or a
  newline, and where every row has each key of the first row that is the name of a
  member of \<open>Object.prototype\<close>: \<open>convertToCsv\<close> returns, the output has one line for
  the header and one for each row, the first line split at the commas has as many fields
  as the first row has keys, and so has every line.
\<close>

theorem csv_field_counts:
  assumes "row0 \<noteq> []"
    and "\<forall>k \<in> fst ` set row0. CHR '','' \<notin> set k \<and> CHR 0x0A \<notin> set k"
    and "\<forall>row \<in> set (row0 # rest). \<forall>header \<in> fst ` set row0.
           CHR '','' \<notin> set (cell_value row header) \<and> CHR 0x0A \<notin> set (cell_value row header)"
    and "\<forall>row \<in> set (row0 # rest). \<forall>header \<in> fst ` set row0.
           header \<in> set Object_prototype \<longrightarrow> header \<in> fst ` set row"
  shows "\<exists>out. convertToCsv (Some (row0 # rest)) = Inr out
     \<and> length (split (CHR 0x0A) out) = Suc (length (row0 # rest))
     \<and> length (split (CHR '','') (hd (split (CHR 0x0A) out))) = length (Object_keys row0)
     \<and> (\<forall>line \<in> set (split (CHR 0x0A) out).
           length (split (CHR '','') line) = length (Object_keys row0))"
proof -
  define headers where "headers = Object_keys row0"
  define headerRow where "headerRow = join '','' headers"
  define quoted where \<open>quoted = (\<lambda>row header. ''"'' @ replace_quotes (cell_value row header) @ ''"'')\<close>
  define rows where "rows = map (\<lambda>row. join '','' (map (quoted row) headers)) (row0 # rest)"
  define out where "out = join [CHR 0x0A] (headerRow # rows)"
  have own: "\<forall>row \<in> set (row0 # rest). \<forall>header \<in> fst ` set row0. get row header \<noteq> Inherited"
    unfolding get_Inherited_iff using assms(4) by blast
  have returns: "convertToCsv (Some (row0 # rest)) = Inr out"
    unfolding out_def headerRow_def rows_def quoted_def headers_def
    by (rule convertToCsv_returns [OF own])
  have headers_keys: "set headers = fst ` set row0"
    by (simp add: headers_def set_Object_keys)
  have headers_ne: "headers \<noteq> []"
    using assms(1) headers_keys by (cases row0) auto
  have keys: "\<forall>k \<in> set headers. CHR '','' \<notin> set k \<and> CHR 0x0A \<notin> set k"
    using assms(2) by (simp add: headers_keys)
  have header_nl: "CHR 0x0A \<notin> set headerRow"
    unfolding headerRow_def using keys by (intro join_chars) simp_all
  have header_fields: "split (CHR '','') headerRow = headers"
    unfolding headerRow_def using headers_ne keys by (intro split_join) simp_all
  have cells: "CHR '','' \<notin> set x \<and> CHR 0x0A \<notin> set x"
    if "row \<in> set (row0 # rest)" and "x \<in> set (map (quoted row) headers)" for row x
  proof -
    from that(2) obtain header where h: "header \<in> fst ` set row0" and x: "x = quoted row header"
      using headers_keys by auto
    from assms(3) that(1) h
    have "CHR '','' \<notin> set (cell_value row header)"
      and "CHR 0x0A \<notin> set (cell_value row header)"
      by blast+
    then show ?thesis
      unfolding x quoted_def using set_replace_quotes [of "cell_value row header"] by auto
  qed
  have row_nl: "CHR 0x0A \<notin> set r" if "r \<in> set rows" for r
  proof -
    from that obtain row where row: "row \<in> set (row0 # rest)"
      and r: "r = join '','' (map (quoted row) headers)"
      unfolding rows_def by auto
    show ?thesis
      unfolding r using cells [OF row] by (intro join_chars) simp_all
  qed
  have row_fields: "length (split (CHR '','') r) = length headers" if "r \<in> set rows" for r
  proof -
    from that obtain row where row: "row \<in> set (row0 # rest)"
      and r: "r = join '','' (map (quoted row) headers)"
      unfolding rows_def by auto
    have "split (CHR '','') r = map (quoted row) headers"
      unfolding r using headers_ne cells [OF row] by (intro split_join) simp_all
    then show ?thesis by simp
  qed
  have lines: "split (CHR 0x0A) out = headerRow # rows"
    unfolding out_def using header_nl row_nl by (intro split_join) auto
  have "length (split (CHR 0x0A) out) = Suc (length (row0 # rest))
     \<and> length (split (CHR '','') (hd (split (CHR 0x0A) out))) = length (Object_keys row0)
     \<and> (\<forall>line \<in> set (split (CHR 0x0A) out).
           length (split (CHR '','') line) = length (Object_keys row0))"
    unfolding lines using header_fields row_fields
    by (simp add: rows_def headers_def)
  with returns show ?thesis by blast
qed

theorem csv_field_counts_witness:
  \<open>convertToCsv (Some [[(''row'', ''1''), (''J'', ''4'-7 1/8"'')], [(''row'', ''2'')]])
     = Inr (''row,J'' @ [CHR 0x0A] @ ''"1","4'-7 1/8"""'' @ [CHR 0x0A] @ ''"2",""'')
   \<and> split (CHR 0x0A) (''row,J'' @ [CHR 0x0A] @ ''"1","4'-7 1/8"""'' @ [CHR 0x0A] @ ''"2",""'')
     = [''row,J'', ''"1","4'-7 1/8"""'', ''"2",""'']
   \<and> length (Object_keys [(''row'', ''1''), (''J'', ''4'-7 1/8"'')]) = 2
   \<and> length (split (CHR '','') ''row,J'') = 2
   \<and> length (split (CHR '','') ''"1","4'-7 1/8"""'') = 2
   \<and> length (split (CHR '','') ''"2",""'') = 2\<close>
proof -
  let ?r0 = \<open>[(''row'', ''1''), (''J'', ''4'-7 1/8"'')]\<close> and ?rest = "[[(''row'', ''2'')]]"
  let ?out = \<open>''row,J'' @ [CHR 0x0A] @ ''"1","4'-7 1/8"""'' @ [CHR 0x0A] @ ''"2",""''\<close>
  have a: "?r0 \<noteq> []" by simp
  have b: "\<forall>k \<in> fst ` set ?r0. CHR '','' \<notin> set k \<and> CHR 0x0A \<notin> set k" by simp
  have c: "\<forall>row \<in> set (?r0 # ?rest). \<forall>header \<in> fst ` set ?r0.
           CHR '','' \<notin> set (cell_value row header) \<and> CHR 0x0A \<notin> set (cell_value row header)"
    by (simp add: cell_value_def)
  have d: "\<forall>row \<in> set (?r0 # ?rest). \<forall>header \<in> fst ` set ?r0.
           header \<in> set Object_prototype \<longrightarrow> header \<in> fst ` set row"
    by (simp add: Object_prototype_def)
  have k: "Object_keys ?r0 = [''row'', ''J'']"
    by (simp add: Object_keys_def isArrayIndex_def isDigit_def)
  have o: "convertToCsv (Some (?r0 # ?rest)) = Inr ?out"
    by (simp add: convertToCsv_def k cell_def get_def or_empty_def Object_prototype_def)
  from csv_field_counts [OF a b c d] obtain out
    where "convertToCsv (Some (?r0 # ?rest)) = Inr out"
      and "length (split (CHR 0x0A) out) = Suc (length (?r0 # ?rest))"
      and "\<forall>line \<in> set (split (CHR 0x0A) out).
             length (split (CHR '','') line) = length (Object_keys ?r0)"
    by blast
  with o have e: "length (split (CHR 0x0A) ?out) = Suc (length (?r0 # ?rest))"
    and f: "\<forall>line \<in> set (split (CHR 0x0A) ?out).
             length (split (CHR '','') line) = length (Object_keys ?r0)"
    by simp_all
  have s: \<open>split (CHR 0x0A) ?out = [''row,J'', ''"1","4'-7 1/8"""'', ''"2",""'']\<close>
    by simp
  from f have g: \<open>length (split (CHR '','') ''row,J'') = 2
      \<and> length (split (CHR '','') ''"1","4'-7 1/8"""'') = 2
      \<and> length (split (CHR '','') ''"2",""'') = 2\<close>
    unfolding s k by simp
  from o s k g show ?thesis by simp
qed

text \<open>
  As first stated, C2 has no condition on the keys and the values. A comma in a value or
  in a key adds a field, a newline in a value adds a line, and the header of a first row
  without keys is one empty field.
\<close>

theorem field_count_counterexample:
  \<open>convertToCsv (Some [[(''Name'', ''Smith, John'')]]) = Inr (''Name'' @ [CHR 0x0A] @ ''"Smith, John"'')
   \<and> split (CHR 0x0A) (''Name'' @ [CHR 0x0A] @ ''"Smith, John"'') = [''Name'', ''"Smith, John"'']
   \<and> length (Object_keys [(''Name'', ''Smith, John'')]) = 1
   \<and> length (split (CHR '','') ''"Smith, John"'') = 2
   \<and> convertToCsv (Some [[(''a,b'', ''x'')]]) = Inr (''a,b'' @ [CHR 0x0A] @ ''"x"'')
   \<and> length (Object_keys [(''a,b'', ''x'')]) = 1
   \<and> length (split (CHR '','') ''a,b'') = 2
   \<and> convertToCsv (Some [[(''note'', ''top'' @ [CHR 0x0A] @ ''bottom'')]])
       = Inr (''note'' @ [CHR 0x0A] @ ''"top'' @ [CHR 0x0A] @ ''bottom"'')
   \<and> length (split (CHR 0x0A) (''note'' @ [CHR 0x0A] @ ''"top'' @ [CHR 0x0A] @ ''bottom"'')) = 3
   \<and> convertToCsv (Some [[]]) = Inr [CHR 0x0A]
   \<and> length (Object_keys []) = 0
   \<and> length (split (CHR '','') (hd (split (CHR 0x0A) [CHR 0x0A]))) = 1\<close>
  by (simp add: convertToCsv_def Object_keys_def isArrayIndex_def isDigit_def numeric_value_def
      cell_def get_def or_empty_def Object_prototype_def)

text \<open>
  C4. The claim asks for the empty cell wherever a row lacks a key of the first row. When
  the name of that key is the name of a member of \<open>Object.prototype\<close>, the lookup finds
  the inherited member, which is truthy and has no \<open>replace\<close>, and \<open>convertToCsv\<close>
  throws a \<open>TypeError\<close>; it throws in this case only, and so does a cell. Below, the
  second row lacks the key \<open>constructor\<close> of the first. A key of any other name that
  the row lacks gives the quoted empty string, and \<^verbatim>\<open>4'-7 1/8"\<close> is written
  \<^verbatim>\<open>"4'-7 1/8"""\<close>.
\<close>

theorem missing_inherited_key_throws:
  \<open>(convertToCsv (Some (row0 # rest)) = Inl TypeError
      \<longleftrightarrow> (\<exists>row \<in> set (row0 # rest). \<exists>header \<in> fst ` set row0.
             header \<notin> fst ` set row \<and> header \<in> set Object_prototype))
   \<and> (cell row header = Inl TypeError
      \<longleftrightarrow> header \<notin> fst ` set row \<and> header \<in> set Object_prototype)
   \<and> cell [(''row'', ''2''), (''J'', ''d''), (''K'', ''e''), (''L'', ''f'')] ''constructor'' = Inl TypeError
   \<and> convertToCsv (Some
         [[(''row'', ''1''), (''J'', ''a''), (''K'', ''b''), (''L'', ''c''), (''constructor'', ''x'')],
          [(''row'', ''2''), (''J'', ''d''), (''K'', ''e''), (''L'', ''f'')]]) = Inl TypeError
   \<and> cell [(''row'', ''2''), (''J'', ''d''), (''K'', ''e''), (''L'', ''f'')] ''builder'' = Inr ''""''
   \<and> cell [(''J'', ''4'-7 1/8"'')] ''J'' = Inr ''"4'-7 1/8"""''\<close>
proof -
  have c: "cell row header = Inl TypeError
      \<longleftrightarrow> header \<notin> fst ` set row \<and> header \<in> set Object_prototype" for row header
  proof (cases "get row header = Inherited")
    case True
    then show ?thesis using cell_throws [OF True] by (simp add: get_Inherited_iff)
  next
    case False
    then show ?thesis using cell_returns [OF False] by (simp add: get_Inherited_iff)
  qed
  have t: "convertToCsv (Some (row0 # rest)) = Inl TypeError
      \<longleftrightarrow> (\<exists>row \<in> set (row0 # rest). \<exists>header \<in> fst ` set row0.
             header \<notin> fst ` set row \<and> header \<in> set Object_prototype)" for row0 rest
  proof (cases "\<forall>row \<in> set (row0 # rest). \<forall>header \<in> fst ` set row0. get row header \<noteq> Inherited")
    case True
    from convertToCsv_returns [OF True] have "convertToCsv (Some (row0 # rest)) \<noteq> Inl TypeError"
      by simp
    moreover from True
    have "\<not> (\<exists>row \<in> set (row0 # rest). \<exists>header \<in> fst ` set row0.
             header \<notin> fst ` set row \<and> header \<in> set Object_prototype)"
      unfolding get_Inherited_iff by blast
    ultimately show ?thesis by blast
  next
    case False
    then obtain row header where r: "row \<in> set (row0 # rest)" and h: "header \<in> fst ` set row0"
      and g: "get row header = Inherited"
      by blast
    from convertToCsv_throws [OF r h g] have "convertToCsv (Some (row0 # rest)) = Inl TypeError" .
    moreover from r h g
    have "\<exists>row \<in> set (row0 # rest). \<exists>header \<in> fst ` set row0.
             header \<notin> fst ` set row \<and> header \<in> set Object_prototype"
      unfolding get_Inherited_iff by blast
    ultimately show ?thesis by blast
  qed
  have e1: "cell [(''row'', ''2''), (''J'', ''d''), (''K'', ''e''), (''L'', ''f'')] ''constructor''
      = Inl TypeError"
    unfolding c by (simp add: Object_prototype_def)
  have e2: "convertToCsv (Some
         [[(''row'', ''1''), (''J'', ''a''), (''K'', ''b''), (''L'', ''c''), (''constructor'', ''x'')],
          [(''row'', ''2''), (''J'', ''d''), (''K'', ''e''), (''L'', ''f'')]]) = Inl TypeError"
    unfolding t by (simp add: Object_prototype_def)
  have e3: \<open>cell [(''row'', ''2''), (''J'', ''d''), (''K'', ''e''), (''L'', ''f'')] ''builder'' = Inr ''""''\<close>
    by (simp add: cell_def get_def or_empty_def Object_prototype_def)
  have e4: \<open>cell [(''J'', ''4'-7 1/8"'')] ''J'' = Inr ''"4'-7 1/8"""''\<close>
    by (simp add: cell_def get_def or_empty_def)
  from c t e1 e2 e3 e4 show ?thesis by blast
qed




section \<open>The view controller\<close>

text \<open>
  C6. \<open>handleFileChange\<close> takes a file exactly when its type is \<open>image/jpeg\<close>,
  \<open>image/jpg\<close> or \<open>image/png\<close>. Any other selection, also an empty one, sets the
  validation error, clears the selected image and the preview and leaves
  \<open>extractedData\<close> as it was; a valid selection after it clears the error.
\<close>

theorem handleFileChange_validation:
  "(imageFile (handleFileChange mkUrl (Some file) s) = Some file
      \<longleftrightarrow> type file \<in> {''image/jpeg'', ''image/jpg'', ''image/png''})
   \<and> ((case event of None \<Rightarrow> True
        | Some f \<Rightarrow> type f \<notin> {''image/jpeg'', ''image/jpg'', ''image/png''})
      \<longrightarrow> error (handleFileChange mkUrl event s) = Some ValidationError
        \<and> imageFile (handleFileChange mkUrl event s) = None
        \<and> imageDataUrl (handleFileChange mkUrl event s) = None
        \<and> extractedData (handleFileChange mkUrl event s) = extractedData s
        \<and> (type valid \<in> {''image/jpeg'', ''image/jpg'', ''image/png''}
           \<longrightarrow> error (handleFileChange mkUrl (Some valid) (handleFileChange mkUrl event s)) = None
             \<and> imageFile (handleFileChange mkUrl (Some valid) (handleFileChange mkUrl event s))
                 = Some valid))"
proof -
  have taken: "handleFileChange mkUrl (Some f) t
      = t\<lparr>error := None, imageFile := Some f, imageDataUrl := Some (mkUrl f),
           extractedData := JNull\<rparr>"
    if "type f \<in> {''image/jpeg'', ''image/jpg'', ''image/png''}" for f t
    using that by (auto simp add: handleFileChange_def Let_def)
  have refused: "handleFileChange mkUrl e t
      = t\<lparr>error := Some ValidationError, imageFile := None, imageDataUrl := None\<rparr>"
    if "case e of None \<Rightarrow> True
        | Some f \<Rightarrow> type f \<notin> {''image/jpeg'', ''image/jpg'', ''image/png''}" for e t
    using that by (cases e) (simp_all add: handleFileChange_def Let_def)
  have exactly: "imageFile (handleFileChange mkUrl (Some file) s) = Some file
      \<longleftrightarrow> type file \<in> {''image/jpeg'', ''image/jpg'', ''image/png''}"
  proof (cases "type file \<in> {''image/jpeg'', ''image/jpg'', ''image/png''}")
    case True
    then show ?thesis by (simp add: taken)
  next
    case False
    then have "handleFileChange mkUrl (Some file) s
        = s\<lparr>error := Some ValidationError, imageFile := None, imageDataUrl := None\<rparr>"
      by (intro refused) simp
    with False show ?thesis by simp
  qed
  have other: "error (handleFileChange mkUrl event s) = Some ValidationError
        \<and> imageFile (handleFileChange mkUrl event s) = None
        \<and> imageDataUrl (handleFileChange mkUrl event s) = None
        \<and> extractedData (handleFileChange mkUrl event s) = extractedData s
        \<and> (type valid \<in> {''image/jpeg'', ''image/jpg'', ''image/png''}
           \<longrightarrow> error (handleFileChange mkUrl (Some valid) (handleFileChange mkUrl event s)) = None
             \<and> imageFile (handleFileChange mkUrl (Some valid) (handleFileChange mkUrl event s))
                 = Some valid)"
    if "case event of None \<Rightarrow> True
        | Some f \<Rightarrow> type f \<notin> {''image/jpeg'', ''image/jpg'', ''image/png''}"
    by (simp add: refused [OF that] taken)
  from exactly other show ?thesis by blast
qed

theorem handleFileChange_validation_witness:
  "imageFile (handleFileChange (\<lambda>f. ''blob:'' @ name f) (Some png_file) initial_state) = Some png_file
   \<and> imageFile (handleFileChange (\<lambda>f. ''blob:'' @ name f) (Some text_file) initial_state) \<noteq> Some text_file
   \<and> error (handleFileChange (\<lambda>f. ''blob:'' @ name f) (Some text_file)
        (initial_state\<lparr>extractedData := JArray []\<rparr>)) = Some ValidationError
   \<and> extractedData (handleFileChange (\<lambda>f. ''blob:'' @ name f) (Some text_file)
        (initial_state\<lparr>extractedData := JArray []\<rparr>)) = JArray []
   \<and> error (handleFileChange (\<lambda>f. ''blob:'' @ name f) (Some png_file)
        (handleFileChange (\<lambda>f. ''blob:'' @ name f) (Some text_file)
           (initial_state\<lparr>extractedData := JArray []\<rparr>))) = None"
proof -
  let ?mk = "\<lambda>f. ''blob:'' @ name f"
  have a: "type png_file \<in> {''image/jpeg'', ''image/jpg'', ''image/png''}"
    by (simp add: png_file_def)
  have b: "type text_file \<notin> {''image/jpeg'', ''image/jpg'', ''image/png''}"
    by (simp add: text_file_def)
  have c: "(case Some text_file of None \<Rightarrow> True
        | Some f \<Rightarrow> type f \<notin> {''image/jpeg'', ''image/jpg'', ''image/png''})"
    using b by simp
  from handleFileChange_validation [where mkUrl = ?mk and ?file = png_file and s = initial_state]
  have 1: "imageFile (handleFileChange ?mk (Some png_file) initial_state) = Some png_file"
    using a by blast
  from handleFileChange_validation [where mkUrl = ?mk and ?file = text_file and s = initial_state]
  have 2: "imageFile (handleFileChange ?mk (Some text_file) initial_state) \<noteq> Some text_file"
    using b by blast
  from handleFileChange_validation [where mkUrl = ?mk and event = "Some text_file"
      and s = "initial_state\<lparr>extractedData := JArray []\<rparr>" and valid = png_file]
  have 3: "error (handleFileChange ?mk (Some text_file) (initial_state\<lparr>extractedData := JArray []\<rparr>))
        = Some ValidationError
    \<and> extractedData (handleFileChange ?mk (Some text_file) (initial_state\<lparr>extractedData := JArray []\<rparr>))
        = extractedData (initial_state\<lparr>extractedData := JArray []\<rparr>)
    \<and> error (handleFileChange ?mk (Some png_file)
        (handleFileChange ?mk (Some text_file) (initial_state\<lparr>extractedData := JArray []\<rparr>))) = None"
    using a c by blast
  from 1 2 3 show ?thesis by simp
qed

text \<open>
  C7. The handle \<open>ai\<close> is set at startup from the presence of the credential, and no
  action of a session changes it, nor \<open>configError\<close>. When the credential is absent the
  configuration error is set after the first render; and from a state where it is set,
  after any actions, \<open>handleExtractData\<close> changes nothing and sends nothing.
\<close>

theorem configuration_never_changes:
  "ai (startup apiKey) = module_ai apiKey
   \<and> isApiConfigured (module_ai apiKey) = truthy apiKey
   \<and> ai (run w x actions) = ai x
   \<and> configError (app (run w x actions)) = configError (app x)
   \<and> (\<not> truthy apiKey \<longrightarrow> configError (app (startup apiKey)) = Some ConfigurationError)
   \<and> (truthy (configError (app x))
      \<longrightarrow> step w (run w x actions) ExtractData = run w x actions
        \<and> handleExtractData v js net handle (app (run w x actions)) = (app (run w x actions), [])
        \<and> requests (run w x actions) = requests x)"
proof -
  have a: "isApiConfigured (module_ai apiKey) = truthy apiKey"
    by (cases apiKey) (simp_all add: isApiConfigured_def module_ai_def)
  have b: "\<not> truthy apiKey \<Longrightarrow> configError (app (startup apiKey)) = Some ConfigurationError"
    using a by (simp add: startup_def useEffect_mount_def)
  have c: "truthy (configError (app x)) \<Longrightarrow> truthy (configError (app (run w x actions)))"
    by (simp add: run_configError)
  have d: "truthy (configError (app x)) \<Longrightarrow>
      handleExtractData v js net handle (app (run w x actions)) = (app (run w x actions), [])"
    using c by (simp add: handleExtractData_def handleExtractData_begin_def)
  have e: "truthy (configError (app x)) \<Longrightarrow> step w (run w x actions) ExtractData = run w x actions"
    using c by (rule guarded_extract_noop)
  have f: "ai (startup apiKey) = module_ai apiKey"
    by (simp add: startup_def)
  show ?thesis
    using a b d e f by (simp add: run_ai run_configError guarded_run_requests del: step.simps)
qed

theorem configuration_never_changes_witness:
  "\<not> truthy None
   \<and> configError (app (startup None)) = Some ConfigurationError
   \<and> truthy (configError (app (startup None)))
   \<and> ai (run (browser (answers (Some ''[]'')) DynamicHeader) (startup None)
          [FileChange (Some png_file), ExtractData]) = None
   \<and> step (browser (answers (Some ''[]'')) DynamicHeader)
        (run (browser (answers (Some ''[]'')) DynamicHeader) (startup None)
           [FileChange (Some png_file), ExtractData]) ExtractData
       = run (browser (answers (Some ''[]'')) DynamicHeader) (startup None)
           [FileChange (Some png_file), ExtractData]
   \<and> requests (run (browser (answers (Some ''[]'')) DynamicHeader) (startup None)
          [FileChange (Some png_file), ExtractData]) = []"
proof -
  let ?w = "browser (answers (Some ''[]'')) DynamicHeader"
  let ?acts = "[FileChange (Some png_file), ExtractData]"
  have a: "\<not> truthy None" by simp
  have b: "module_ai None = None" by (simp add: module_ai_def)
  have r: "requests (startup None) = []" by (simp add: startup_def)
  from configuration_never_changes [where apiKey = None and w = ?w and x = "startup None"
      and actions = ?acts]
  have c: "configError (app (startup None)) = Some ConfigurationError"
    and d: "ai (run ?w (startup None) ?acts) = ai (startup None)"
    and e: "ai (startup None) = module_ai None"
    and f: "truthy (configError (app (startup None))) \<longrightarrow>
        step ?w (run ?w (startup None) ?acts) ExtractData = run ?w (startup None) ?acts
        \<and> requests (run ?w (startup None) ?acts) = requests (startup None)"
    using a by blast+
  have g: "truthy (configError (app (startup None)))"
    unfolding c by (simp add: ConfigurationError_def)
  from a b c d e f g r show ?thesis by (simp del: step.simps)
qed

text \<open>
  C8. For a readable file whose type has no comma, \<open>fileToBase64\<close> resolves with the
  Base64 payload alone: the result of the reader is a prefix without comma, a comma and
  the payload, which has no comma either. Every file that a session has in \<open>imageFile\<close>
  is such a file. For a file that cannot be read, \<open>fileToBase64\<close> rejects with the
  event of the reader.
\<close>

theorem fileToBase64_payload:
  "(readable file \<and> CHR '','' \<notin> set (type file)
      \<longrightarrow> fileToBase64 file = Inr (Some (base64 (bytes file)))
        \<and> (\<exists>prefix. readAsDataURL file = Some (prefix @ '','' @ base64 (bytes file))
              \<and> CHR '','' \<notin> set prefix \<and> CHR '','' \<notin> set (base64 (bytes file))))
   \<and> (imageFile (app (run w (startup apiKey) actions)) = Some file \<and> readable file
      \<longrightarrow> fileToBase64 file = Inr (Some (base64 (bytes file))))
   \<and> (\<not> readable file \<longrightarrow> fileToBase64 file = Inl ProgressEvent)"
proof -
  define p where
    "p = ''data:'' @ (if type file = [] then ''application/octet-stream'' else type file) @ '';base64''"
  have general: "fileToBase64 file = Inr (Some (base64 (bytes file)))
        \<and> (\<exists>prefix. readAsDataURL file = Some (prefix @ '','' @ base64 (bytes file))
              \<and> CHR '','' \<notin> set prefix \<and> CHR '','' \<notin> set (base64 (bytes file)))"
    if r: "readable file" and t: "CHR '','' \<notin> set (type file)"
  proof -
    have url: "readAsDataURL file = Some (p @ '','' @ base64 (bytes file))"
      using r by (simp add: readAsDataURL_def p_def)
    have pc: "CHR '','' \<notin> set p"
      using t by (simp add: p_def)
    have "fileToBase64 file = Inr (Some (base64 (bytes file)))"
      unfolding fileToBase64_def url
      using data_url_split [OF pc base64_no_comma, of "bytes file"] by simp
    with url pc base64_no_comma show ?thesis by blast
  qed
  have reached: "fileToBase64 file = Inr (Some (base64 (bytes file)))"
    if i: "imageFile (app (run w (startup apiKey) actions)) = Some file" and r: "readable file"
  proof -
    have "accepted (imageFile (app (run w (startup apiKey) actions)))"
      by (rule run_accepted) (rule startup_accepted)
    then have "CHR '','' \<notin> set (type file)"
      unfolding i by (auto simp add: accepted_def)
    with general r show ?thesis by blast
  qed
  have unreadable: "fileToBase64 file = Inl ProgressEvent" if "\<not> readable file"
    using that by (simp add: fileToBase64_def readAsDataURL_def)
  from general reached unreadable show ?thesis by blast
qed

theorem fileToBase64_payload_witness:
  "readable png_file \<and> CHR '','' \<notin> set (type png_file)
   \<and> fileToBase64 png_file = Inr (Some ''TWFu'')
   \<and> imageFile (app (run (browser (answers (Some ''[]'')) DynamicHeader) (startup (Some ''key''))
          [FileChange (Some png_file)])) = Some png_file
   \<and> \<not> readable (png_file\<lparr>readable := False\<rparr>)
   \<and> fileToBase64 (png_file\<lparr>readable := False\<rparr>) = Inl ProgressEvent"
proof -
  let ?w = "browser (answers (Some ''[]'')) DynamicHeader"
  have a: "readable png_file \<and> CHR '','' \<notin> set (type png_file)"
    by (simp add: png_file_def)
  have b: "base64 (bytes png_file) = ''TWFu''"
    by (simp add: png_file_def sextet_def base64_alphabet_def)
  have c: "imageFile (app (run ?w (startup (Some ''key'')) [FileChange (Some png_file)])) = Some png_file"
    by (simp add: run_def handleFileChange_def Let_def png_file_def)
  have d: "\<not> readable (png_file\<lparr>readable := False\<rparr>)" by simp
  from fileToBase64_payload [where ?file = png_file and w = ?w and apiKey = "Some ''key''"
      and actions = "[FileChange (Some png_file)]"]
  have 1: "fileToBase64 png_file = Inr (Some (base64 (bytes png_file)))"
    using a by blast
  from fileToBase64_payload [where ?file = "png_file\<lparr>readable := False\<rparr>"]
  have 2: "fileToBase64 (png_file\<lparr>readable := False\<rparr>) = Inl ProgressEvent"
    using d by blast
  from a b c d 1 2 show ?thesis by simp
qed

text \<open>
  C10. When \<open>handleExtractData\<close> passes its guards, it sets \<open>extractedData\<close> to
  \<open>null\<close> and clears the error before the awaited work starts. When that work fails,
  the state afterwards has \<open>extractedData\<close> equal to \<open>null\<close>, whatever it was before,
  and \<open>error\<close> equal to the message of the failure (a fixed message when the failure
  is not an \<open>Error\<close>); this also holds when files are selected while the work is
  awaited.
\<close>

theorem failed_extraction_discards_result:
  assumes "\<not> truthy (configError s)" and "imageFile s = Some file"
    and "fst (awaited v js net handle file) = Inl err"
  shows "handleExtractData_begin s
           = (s\<lparr>isLoading := True, error := None, extractedData := JNull\<rparr>, Some file)
     \<and> extractedData (fst (handleExtractData v js net handle s)) = JNull
     \<and> error (fst (handleExtractData v js net handle s))
         = Some (case err of Error m \<Rightarrow> m | _ \<Rightarrow> ''An unexpected error occurred.'')
     \<and> isLoading (fst (handleExtractData v js net handle s)) = False
     \<and> extractedData (handleExtractData_settle (Inl err)
           (foldl (\<lambda>s event. handleFileChange mkUrl event s) (fst (handleExtractData_begin s)) events))
         = JNull
     \<and> error (handleExtractData_settle (Inl err)
           (foldl (\<lambda>s event. handleFileChange mkUrl event s) (fst (handleExtractData_begin s)) events))
         = Some (case err of Error m \<Rightarrow> m | _ \<Rightarrow> ''An unexpected error occurred.'')"
proof -
  have b: "handleExtractData_begin s
           = (s\<lparr>isLoading := True, error := None, extractedData := JNull\<rparr>, Some file)"
    using assms(1,2) by (simp add: handleExtractData_begin_def)
  have n: "extractedData (fst (handleExtractData_begin s)) = JNull"
    by (simp add: b)
  obtain sent where aw: "awaited v js net handle file = (Inl err, sent)"
    using assms(3) by (cases "awaited v js net handle file") simp
  have h: "handleExtractData v js net handle s
           = (handleExtractData_settle (Inl err)
                (s\<lparr>isLoading := True, error := None, extractedData := JNull\<rparr>), sent)"
    by (simp add: handleExtractData_def b aw)
  show ?thesis
    using file_changes_keep_null [OF n, of mkUrl events]
    by (simp add: h b handleExtractData_settle_def)
qed

theorem failed_extraction_discards_result_witness:
  "\<not> truthy (configError (initial_state\<lparr>imageFile := Some png_file, extractedData := JArray []\<rparr>))
   \<and> fst (awaited DynamicHeader v8 (fails (Error ''fetch failed'')) (Some (GoogleGenAI ''key'')) png_file)
       = Inl (Error (ServiceError ''fetch failed''))
   \<and> extractedData (fst (handleExtractData DynamicHeader v8 (fails (Error ''fetch failed''))
        (Some (GoogleGenAI ''key''))
        (initial_state\<lparr>imageFile := Some png_file, extractedData := JArray []\<rparr>))) = JNull
   \<and> error (fst (handleExtractData DynamicHeader v8 (fails (Error ''fetch failed''))
        (Some (GoogleGenAI ''key''))
        (initial_state\<lparr>imageFile := Some png_file, extractedData := JArray []\<rparr>)))
       = Some (ServiceError ''fetch failed'')
   \<and> fst (awaited FixedSchema v8 (answers (Some ''[]'')) (Some (GoogleGenAI ''key''))
        (png_file\<lparr>readable := False\<rparr>)) = Inl ProgressEvent
   \<and> error (fst (handleExtractData FixedSchema v8 (answers (Some ''[]'')) (Some (GoogleGenAI ''key''))
        (initial_state\<lparr>imageFile := Some (png_file\<lparr>readable := False\<rparr>),
                        extractedData := JArray []\<rparr>)))
       = Some ''An unexpected error occurred.''"
proof -
  let ?s = "initial_state\<lparr>imageFile := Some png_file, extractedData := JArray []\<rparr>"
  let ?s' = "initial_state\<lparr>imageFile := Some (png_file\<lparr>readable := False\<rparr>), extractedData := JArray []\<rparr>"
  let ?c = "Some (GoogleGenAI ''key'')"
  have a: "\<not> truthy (configError ?s)" "\<not> truthy (configError ?s')"
    by (simp_all add: initial_state_def)
  have b: "imageFile ?s = Some png_file" "imageFile ?s' = Some (png_file\<lparr>readable := False\<rparr>)"
    by simp_all
  have f: "fileToBase64 png_file = Inr (Some ''TWFu'')"
    by (simp add: fileToBase64_def readAsDataURL_def png_file_def sextet_def base64_alphabet_def)
  have c: "fst (awaited DynamicHeader v8 (fails (Error ''fetch failed'')) ?c png_file)
       = Inl (Error (ServiceError ''fetch failed''))"
    by (simp add: awaited_def f extractDataFromImage_dynamic_header_def try_block_def fails_def
        catch_dynamic_header_def)
  have d: "fst (awaited FixedSchema v8 (answers (Some ''[]'')) ?c (png_file\<lparr>readable := False\<rparr>))
       = Inl ProgressEvent"
    by (simp add: awaited_def fileToBase64_def readAsDataURL_def)
  from failed_extraction_discards_result [OF a(1) b(1) c, of "\<lambda>f. ''blob:'' @ name f" "[]"]
    failed_extraction_discards_result [OF a(2) b(2) d, of "\<lambda>f. ''blob:'' @ name f" "[]"]
  show ?thesis using a c d by simp
qed

end
